theory Spec2Isabelle
  imports Complex_Main "HOL-Library.List_Lexorder" "HOL-Library.Char_ord" "HOL-Library.Product_Lexorder"
begin

section \<open>Migration of the pipeline history (engine/api/pipeline_parameter.go)\<close>

text \<open>
  The development embeds \<open>MigratePipelineHistory\<close> and \<open>getPipelineBuild\<close>.
  A JSON text is represented by the document it denotes; a text that is not valid JSON is
  \<open>None\<close>. Numbers of the dynamic tree are Go \<open>float64\<close> values; every finite
  \<open>float64\<close> is a rational, so they are kept as \<open>rat\<close>.
\<close>

subsection \<open>Dynamic JSON values (\<open>interface{}\<close> after \<open>json.Unmarshal\<close>)\<close>

datatype json =
    JNull
  | JBool bool
  | JNumber rat
  | JString string
  | JArray "json list"
  | JObject "(string \<times> json) list"

text \<open>A Go map built from a JSON object keeps the last value of a repeated key.\<close>

definition lookup :: "(string \<times> json) list \<Rightarrow> string \<Rightarrow> json option" where
  "lookup kv k = map_of (rev kv) k"

text \<open>
  Type assertions \<open>x.(T)\<close> on an \<open>interface{}\<close>: \<open>None\<close> is the run-time panic of a failed
  assertion. An absent key reads as the nil interface, on which every assertion panics.
\<close>

fun asArray :: "json option \<Rightarrow> json list option" where
  "asArray (Some (JArray xs)) = Some xs"
| "asArray _ = None"

fun asObject :: "json option \<Rightarrow> (string \<times> json) list option" where
  "asObject (Some (JObject kv)) = Some kv"
| "asObject _ = None"

fun asFloat64 :: "json option \<Rightarrow> rat option" where
  "asFloat64 (Some (JNumber r)) = Some r"
| "asFloat64 _ = None"

fun asString :: "json option \<Rightarrow> string option" where
  "asString (Some (JString s)) = Some s"
| "asString _ = None"

text \<open>The value handed to \<open>json.Marshal\<close>: an absent key is the nil interface, encoded as null.\<close>

fun dyn :: "json option \<Rightarrow> json" where
  "dyn None = JNull"
| "dyn (Some j) = j"

text \<open>The conversion \<open>int64(f)\<close> of a \<open>float64\<close> in range: truncation towards zero.\<close>

definition int64 :: "rat \<Rightarrow> int" where
  "int64 r = (if 0 \<le> r then \<lfloor>r\<rfloor> else \<lceil>r\<rceil>)"

subsection \<open>The typed build (package sdk)\<close>

text \<open>
  Modelled from the spec: the declarations of \<open>sdk.PipelineBuild\<close>, \<open>sdk.Stage\<close>,
  \<open>sdk.PipelineBuildJob\<close>, \<open>sdk.Job\<close>, \<open>sdk.Parameter\<close> and \<open>sdk.Status\<close> are not
  part of the sources at hand. The records carry the fields that the migration reads or writes
  (section 3 of the specification); \<open>sdk.Status\<close> is a string type whose constants
  \<open>StatusSuccess\<close> and \<open>StatusFail\<close> print as "Success" and "Fail".
\<close>

type_synonym time = nat

type_synonym Status = string

definition StatusSuccess :: Status where
  "StatusSuccess = ''Success''"

definition StatusFail :: Status where
  "StatusFail = ''Fail''"

record Parameter =
  Parameter_Name :: string
  Parameter_Type :: string
  Parameter_Value :: string

record Job =
  Job_ActionName :: string
  Job_Enabled :: bool
  Job_PipelineActionID :: int

record PipelineBuildJob =
  PBJ_ID :: int
  PBJ_Parameters :: "Parameter list"
  PBJ_PipelineBuildID :: int
  PBJ_Model :: string
  PBJ_Status :: string
  PBJ_Job :: Job
  PBJ_Start :: time
  PBJ_Done :: time

record Stage =
  Stage_ID :: int
  Stage_Name :: string
  Stage_Status :: Status
  Stage_Jobs :: "Job list"
  Stage_PipelineBuildJobs :: "PipelineBuildJob list"

record Trigger =
  ManualTrigger :: bool
  ScheduledTrigger :: bool
  TriggeredBy :: "int option"
  VCSChangesBranch :: string
  VCSChangesHash :: string
  VCSChangesAuthor :: string

record PipelineBuild =
  PB_ID :: int
  PB_PipelineID :: int
  PB_ApplicationID :: int
  PB_EnvironmentID :: int
  PB_BuildNumber :: int
  PB_Version :: int
  PB_Status :: Status
  PB_Parameters :: "Parameter list"
  PB_Start :: time
  PB_Done :: time
  PB_Trigger :: Trigger
  PB_PreviousPipelineBuild :: "int option"
  PB_Stages :: "Stage list"

subsection \<open>Errors, log lines and the two stores\<close>

text \<open>
  One constructor for each place where the source logs at critical severity. The same
  value names the Go error returned from that place, when one is returned.
\<close>

datatype failure =
    SelectDistinct
  | ScanGroup
  | SelectCriteria
  | ScanID
  | BeginTx
  | SelectData
  | UnmarshalBuild
  | CountBuild
  | UnmarshalMap
  | NoStages
  | StageToUpdate
  | MarshalParams
  | UnmarshalParams
  | MarshalArgs
  | MarshalStages
  | InsertBuild
  | CommitTx

datatype log_entry =
    Notice_migrating int
  | Notice_end_migrating int
  | Critical failure

text \<open>A row of \<open>pipeline_history_old\<close>; \<open>vcs_changes_branch\<close> may be NULL.\<close>

record history_row =
  pipeline_build_id :: int
  application_id :: int
  pipeline_id :: int
  environment_id :: int
  vcs_changes_branch :: "string option"
  version :: int
  data :: "json option"

text \<open>A row of \<open>pipeline_build\<close>, with the eighteen columns of the insert statement.\<close>

record build_row =
  col_id :: int
  col_pipeline_id :: int
  col_build_number :: int
  col_version :: int
  col_status :: string
  col_args :: json
  col_start :: time
  col_application_id :: int
  col_environment_id :: int
  col_done :: time
  col_manual_trigger :: bool
  col_triggered_by :: "int option"
  col_parent_pipeline_build_id :: "int option"
  col_vcs_changes_branch :: string
  col_vcs_changes_hash :: string
  col_vcs_changes_author :: string
  col_scheduled_trigger :: bool
  col_stages :: json

record db =
  pipeline_history_old :: "history_row list"
  pipeline_build :: "build_row list"
  logs :: "log_entry list"

type_synonym grp = "int \<times> int \<times> int \<times> string option"

text \<open>
  What the code takes from outside the repository: the JSON codec of the standard library
  applied to the sdk types (\<open>None\<close> is a returned error), the clock (the \<open>n\<close>-th reading
  of \<open>time.Now()\<close> while a given history record is rebuilt), and the failures of the
  database calls, one flag for each call whose error the source tests.
\<close>

record env =
  unmarshalBuild :: "json \<Rightarrow> PipelineBuild option"
  unmarshalParameters :: "json \<Rightarrow> Parameter list option"
  marshalDynamic :: "json \<Rightarrow> json option"
  marshalParameters :: "Parameter list \<Rightarrow> json option"
  marshalStages :: "Stage list \<Rightarrow> json option"
  now :: "int \<Rightarrow> nat \<Rightarrow> time"
  errDistinct :: bool
  errScanGroup :: "grp \<Rightarrow> bool"
  errCriteria :: "grp \<Rightarrow> bool"
  errScanID :: "int \<Rightarrow> bool"
  errBegin :: "int \<Rightarrow> bool"
  errSelectData :: "int \<Rightarrow> bool"
  errCount :: "int \<Rightarrow> bool"
  errInsert :: "int \<Rightarrow> bool"
  errCommit :: "int \<Rightarrow> bool"

subsection \<open>Results of \<open>getPipelineBuild\<close>\<close>

text \<open>
  \<open>Return x\<close>: a value and a nil error. \<open>ReturnNil f\<close>: every result nil, the error too;
  \<open>f\<close> is the critical line logged before the return, if any. \<open>ReturnErr f\<close>: every result nil
  and a non-nil error, logged as \<open>f\<close>. \<open>Panics\<close>: a run-time panic.
\<close>

datatype 'a outcome =
    Return 'a
  | ReturnNil "failure option"
  | ReturnErr failure
  | Panics

fun obind :: "'a outcome \<Rightarrow> ('a \<Rightarrow> 'b outcome) \<Rightarrow> 'b outcome" where
  "obind (Return x) f = f x"
| "obind (ReturnNil r) f = ReturnNil r"
| "obind (ReturnErr e) f = ReturnErr e"
| "obind Panics f = Panics"

fun assert :: "'a option \<Rightarrow> 'a outcome" where
  "assert None = Panics"
| "assert (Some x) = Return x"

fun orErr :: "failure \<Rightarrow> 'a option \<Rightarrow> 'a outcome" where
  "orErr f None = ReturnErr f"
| "orErr f (Some x) = Return x"

subsection \<open>Rebuilding the stages (lines 929 to 996)\<close>

text \<open>
  Lines 938 to 945: the loop over \<open>range pb.Stages\<close>. Each stage whose ID matches has both job
  lists emptied; the pointer \<open>stageToUpdate\<close> (an index into \<open>pb.Stages\<close>) ends at the last match.
\<close>

definition resetStage :: "Stage \<Rightarrow> Stage" where
  "resetStage s = s\<lparr>Stage_PipelineBuildJobs := [], Stage_Jobs := []\<rparr>"

definition locateStep :: "int \<Rightarrow> nat \<Rightarrow> Stage list \<times> nat option \<Rightarrow> Stage list \<times> nat option" where
  "locateStep sID i sp =
     (if Stage_ID (fst sp ! i) = sID then ((fst sp)[i := resetStage (fst sp ! i)], Some i) else sp)"

definition locateStage :: "int \<Rightarrow> Stage list \<Rightarrow> Stage list \<times> nat option" where
  "locateStage sID stages = fold (locateStep sID) [0..<length stages] (stages, None)"

text \<open>Lines 952 to 989: one entry of "builds" becomes a \<open>PipelineBuildJob\<close>.\<close>

definition buildJob :: "env \<Rightarrow> int \<Rightarrow> int \<Rightarrow> nat \<Rightarrow> json \<Rightarrow> PipelineBuildJob outcome" where
  "buildJob e hid pbID n buildString =
     obind (assert (asObject (Some buildString))) (\<lambda>bString.
     obind (assert (asString (lookup bString ''start''))) (\<lambda>startTimeS.
     obind (assert (asString (lookup bString ''done''))) (\<lambda>doneTimeS.
     obind (orErr MarshalParams (marshalDynamic e (dyn (lookup bString ''args'')))) (\<lambda>parameterJSON.
     obind (orErr UnmarshalParams (unmarshalParameters e parameterJSON)) (\<lambda>parameters.
     obind (assert (asFloat64 (lookup bString ''id''))) (\<lambda>jobID.
     obind (assert (asString (lookup bString ''status''))) (\<lambda>status.
     obind (assert (asString (lookup bString ''action_name''))) (\<lambda>actionName.
     obind (assert (asFloat64 (lookup bString ''pipeline_action_id''))) (\<lambda>paID.
       Return \<lparr>PBJ_ID = int64 jobID,
               PBJ_Parameters = parameters,
               PBJ_PipelineBuildID = pbID,
               PBJ_Model = '''',
               PBJ_Status = status,
               PBJ_Job = \<lparr>Job_ActionName = actionName, Job_Enabled = True,
                          Job_PipelineActionID = int64 paID\<rparr>,
               PBJ_Start = now e hid n,
               PBJ_Done = now e hid (Suc n)\<rparr>)))))))))"

text \<open>Lines 990 and 991: both appends go through the pointer \<open>stageToUpdate\<close>.\<close>

definition attachJob :: "nat \<Rightarrow> PipelineBuildJob \<Rightarrow> Stage list \<Rightarrow> Stage list" where
  "attachJob i pbJob stages =
     stages[i := (stages ! i)\<lparr>Stage_Jobs := Stage_Jobs (stages ! i) @ [PBJ_Job pbJob],
                              Stage_PipelineBuildJobs := Stage_PipelineBuildJobs (stages ! i) @ [pbJob]\<rparr>]"

text \<open>The loop over "builds"; the counter \<open>n\<close> numbers the readings of the clock.\<close>

fun attachJobs :: "env \<Rightarrow> int \<Rightarrow> int \<Rightarrow> nat \<Rightarrow> json list \<Rightarrow> Stage list \<times> nat \<Rightarrow> (Stage list \<times> nat) outcome" where
  "attachJobs e hid pbID i [] sn = Return sn"
| "attachJobs e hid pbID i (b # bs) sn =
     obind (buildJob e hid pbID (snd sn) b) (\<lambda>pbJob.
       attachJobs e hid pbID i bs (attachJob i pbJob (fst sn), Suc (Suc (snd sn))))"

text \<open>Lines 933 to 992: the body of the loop over "stages".\<close>

definition updateStage :: "env \<Rightarrow> int \<Rightarrow> int \<Rightarrow> json \<Rightarrow> Stage list \<times> nat \<Rightarrow> (Stage list \<times> nat) outcome" where
  "updateStage e hid pbID jsonStageString sn =
     obind (assert (asObject (Some jsonStageString))) (\<lambda>stageString.
     obind (assert (asFloat64 (lookup stageString ''id''))) (\<lambda>sID.
       case locateStage (int64 sID) (fst sn) of
         (stages, None) \<Rightarrow> ReturnNil (Some StageToUpdate)
       | (stages, Some i) \<Rightarrow>
           obind (assert (asArray (lookup stageString ''builds''))) (\<lambda>builds.
             attachJobs e hid pbID i builds (stages, snd sn))))"

fun updateStages :: "env \<Rightarrow> int \<Rightarrow> int \<Rightarrow> json list \<Rightarrow> Stage list \<times> nat \<Rightarrow> (Stage list \<times> nat) outcome" where
  "updateStages e hid pbID [] sn = Return sn"
| "updateStages e hid pbID (s # ss) sn =
     obind (updateStage e hid pbID s sn) (updateStages e hid pbID ss)"

text \<open>Lines 930 to 996: a null "stages" gives the build an empty stage list.\<close>

definition rebuildStages :: "env \<Rightarrow> int \<Rightarrow> PipelineBuild \<Rightarrow> json option \<Rightarrow> PipelineBuild outcome" where
  "rebuildStages e hid pb stagesValue =
     (if stagesValue \<noteq> None \<and> stagesValue \<noteq> Some JNull then
        obind (assert (asArray stagesValue)) (\<lambda>entries.
        obind (updateStages e hid (PB_ID pb) entries (PB_Stages pb, 0)) (\<lambda>sn.
          Return (pb\<lparr>PB_Stages := fst sn\<rparr>)))
      else Return (pb\<lparr>PB_Stages := []\<rparr>))"

subsection \<open>The status of a stage (lines 1019 to 1030)\<close>

fun finalStatus :: "PipelineBuildJob list \<Rightarrow> Status" where
  "finalStatus [] = StatusSuccess"
| "finalStatus (pbJob # rest) =
     (if PBJ_Status pbJob = StatusFail then StatusFail else finalStatus rest)"

definition computeStatus :: "Stage list \<Rightarrow> Stage list" where
  "computeStatus stages =
     map (\<lambda>stage. stage\<lparr>Stage_Status := finalStatus (Stage_PipelineBuildJobs stage)\<rparr>) stages"

subsection \<open>\<open>getPipelineBuild\<close> (lines 889 to 1038)\<close>

text \<open>The five non-error results of \<open>getPipelineBuild\<close>.\<close>

record rebuilt =
  r_pb :: PipelineBuild
  r_args :: json
  r_parentID :: "int option"
  r_userID :: "int option"
  r_stagesJSONByte :: json

text \<open>
  Line 891: the row is read with \<open>FOR UPDATE NOWAIT\<close>; the read fails when the lock is held
  elsewhere or the statement fails (\<open>errSelectData\<close>), and when no row has the id.
\<close>

definition selectData :: "env \<Rightarrow> db \<Rightarrow> int \<Rightarrow> json option option" where
  "selectData e st pbHistoryID =
     (if errSelectData e pbHistoryID then None
      else case filter (\<lambda>r. pipeline_build_id r = pbHistoryID) (pipeline_history_old st) of
             [] \<Rightarrow> None
           | r # _ \<Rightarrow> Some (data r))"

text \<open>Line 900: \<open>json.Unmarshal\<close> of the text into the typed build.\<close>

definition decodeBuild :: "env \<Rightarrow> json option \<Rightarrow> PipelineBuild option" where
  "decodeBuild e text = (case text of None \<Rightarrow> None | Some j \<Rightarrow> unmarshalBuild e j)"

text \<open>Line 906: the count of target rows with the id of the decoded build.\<close>

definition countBuild :: "env \<Rightarrow> db \<Rightarrow> int \<Rightarrow> nat option" where
  "countBuild e st pbID =
     (if errCount e pbID then None
      else Some (length (filter (\<lambda>r. col_id r = pbID) (pipeline_build st))))"

text \<open>
  Line 919: \<open>json.Unmarshal\<close> of the text into a \<open>map[string]interface{}\<close>. An object fills the
  map, the text null leaves it nil (every key absent), any other document is an error.
\<close>

fun decodeMap :: "json option \<Rightarrow> (string \<times> json) list option" where
  "decodeMap (Some (JObject kv)) = Some kv"
| "decodeMap (Some JNull) = Some []"
| "decodeMap _ = None"

definition getPipelineBuild :: "env \<Rightarrow> db \<Rightarrow> int \<Rightarrow> rebuilt outcome" where
  "getPipelineBuild e st pbHistoryID =
     obind (orErr SelectData (selectData e st pbHistoryID)) (\<lambda>text.
     obind (orErr UnmarshalBuild (decodeBuild e text)) (\<lambda>pb.
     obind (orErr CountBuild (countBuild e st (PB_ID pb))) (\<lambda>nb.
       if nb \<noteq> 0 then ReturnNil None
       else
     obind (orErr UnmarshalMap (decodeMap text)) (\<lambda>mapPB.
       if lookup mapPB ''stages'' = None then ReturnNil (Some NoStages)
       else
     obind (rebuildStages e pbHistoryID pb (lookup mapPB ''stages'')) (\<lambda>pb1.
     obind (orErr MarshalArgs (marshalParameters e (PB_Parameters pb1))) (\<lambda>args.
       let pb2 = pb1\<lparr>PB_Stages := computeStatus (PB_Stages pb1)\<rparr> in
     obind (orErr MarshalStages (marshalStages e (PB_Stages pb2))) (\<lambda>stagesJSONByte.
       Return \<lparr>r_pb = pb2,
               r_args = args,
               r_parentID = PB_PreviousPipelineBuild pb2,
               r_userID = TriggeredBy (PB_Trigger pb2),
               r_stagesJSONByte = stagesJSONByte\<rparr>)))))))"

subsection \<open>The two queries over \<open>pipeline_history_old\<close> (lines 804 to 829)\<close>

definition group_of :: "history_row \<Rightarrow> grp" where
  "group_of r = (application_id r, pipeline_id r, environment_id r, vcs_changes_branch r)"

text \<open>
  The sort key of \<open>ORDER BY\<close> in ascending order: a NULL branch comes after every string;
  strings are compared byte by byte.
\<close>

fun grp_key :: "grp \<Rightarrow> int \<times> int \<times> int \<times> bool \<times> string" where
  "grp_key (a, p, en, None) = (a, p, en, True, [])"
| "grp_key (a, p, en, Some b) = (a, p, en, False, b)"

definition queryDistinct :: "db \<Rightarrow> grp list" where
  "queryDistinct st = sort_key grp_key (remdups (map group_of (pipeline_history_old st)))"

text \<open>The comparison \<open>vcs_changes_branch = $4\<close> of SQL: it holds for no row when either side is NULL.\<close>

fun sql_eq :: "string option \<Rightarrow> string option \<Rightarrow> bool" where
  "sql_eq (Some x) (Some y) = (x = y)"
| "sql_eq _ _ = False"

fun matches :: "grp \<Rightarrow> history_row \<Rightarrow> bool" where
  "matches (appID, pipID, envID, branchName) r =
     (application_id r = appID \<and> pipeline_id r = pipID \<and> environment_id r = envID
      \<and> sql_eq (vcs_changes_branch r) branchName)"

definition querySelectByCriteria :: "db \<Rightarrow> grp \<Rightarrow> int list" where
  "querySelectByCriteria st g =
     map pipeline_build_id
       (take 10 (sort_key (\<lambda>r. - version r) (filter (matches g) (pipeline_history_old st))))"

subsection \<open>Transactions and the insert (lines 848 to 878)\<close>

text \<open>
  A transaction holds the statements executed through it until it ends: \<open>Commit\<close> applies
  them to the table, \<open>Rollback\<close> drops them. A statement executed on the database handle
  itself takes effect at once and belongs to no transaction.
\<close>

type_synonym tx = "build_row list"

definition db_Begin :: tx where
  "db_Begin = []"

definition tx_Exec :: "tx \<Rightarrow> build_row \<Rightarrow> tx" where
  "tx_Exec t row = t @ [row]"

definition tx_Commit :: "tx \<Rightarrow> db \<Rightarrow> db" where
  "tx_Commit t st = st\<lparr>pipeline_build := pipeline_build st @ t\<rparr>"

definition tx_Rollback :: "tx \<Rightarrow> db \<Rightarrow> db" where
  "tx_Rollback t st = st"

definition db_Exec :: "build_row \<Rightarrow> db \<Rightarrow> db" where
  "db_Exec row st = st\<lparr>pipeline_build := pipeline_build st @ [row]\<rparr>"

definition logLine :: "log_entry \<Rightarrow> db \<Rightarrow> db" where
  "logLine l st = st\<lparr>logs := logs st @ [l]\<rparr>"

text \<open>The eighteen arguments of \<open>queryInsert\<close> (lines 864 to 867).\<close>

definition insertArgs :: "rebuilt \<Rightarrow> build_row" where
  "insertArgs r =
     \<lparr>col_id = PB_ID (r_pb r),
      col_pipeline_id = PB_PipelineID (r_pb r),
      col_build_number = PB_BuildNumber (r_pb r),
      col_version = PB_Version (r_pb r),
      col_status = PB_Status (r_pb r),
      col_args = r_args r,
      col_start = PB_Start (r_pb r),
      col_application_id = PB_ApplicationID (r_pb r),
      col_environment_id = PB_EnvironmentID (r_pb r),
      col_done = PB_Done (r_pb r),
      col_manual_trigger = ManualTrigger (PB_Trigger (r_pb r)),
      col_triggered_by = r_userID r,
      col_parent_pipeline_build_id = r_parentID r,
      col_vcs_changes_branch = VCSChangesBranch (PB_Trigger (r_pb r)),
      col_vcs_changes_hash = VCSChangesHash (PB_Trigger (r_pb r)),
      col_vcs_changes_author = VCSChangesAuthor (PB_Trigger (r_pb r)),
      col_scheduled_trigger = ScheduledTrigger (PB_Trigger (r_pb r)),
      col_stages = r_stagesJSONByte r\<rparr>"

subsection \<open>\<open>MigratePipelineHistory\<close> (lines 800 to 887)\<close>

text \<open>The state after one iteration: the loop goes on, or the goroutine has panicked.\<close>

datatype step = Continue db | Panic db

fun stateOf :: "step \<Rightarrow> db" where
  "stateOf (Continue st) = st"
| "stateOf (Panic st) = st"

text \<open>The critical line that \<open>getPipelineBuild\<close> has logged when it returns on a given path.\<close>

fun logged :: "'a outcome \<Rightarrow> db \<Rightarrow> db" where
  "logged (ReturnErr f) st = logLine (Critical f) st"
| "logged (ReturnNil (Some f)) st = logLine (Critical f) st"
| "logged _ st = st"

text \<open>
  Lines 864 to 878, reached with the results of \<open>getPipelineBuild\<close>. The error \<open>errGetPB\<close>
  is not read; the arguments of \<open>db.Exec\<close> are evaluated first, and \<open>pb.ID\<close> on a nil
  \<open>pb\<close> is a nil pointer dereference. The insert goes through \<open>db\<close>, not through \<open>tx\<close>.
\<close>

fun insertBuild :: "env \<Rightarrow> int \<Rightarrow> tx \<Rightarrow> rebuilt outcome \<Rightarrow> db \<Rightarrow> step" where
  "insertBuild e pbHistoryID t (Return r) st =
     (if errInsert e pbHistoryID
      then Continue (tx_Rollback t (logLine (Critical InsertBuild) st))
      else let st1 = db_Exec (insertArgs r) st in
        if errCommit e pbHistoryID
        then Continue (tx_Rollback t (logLine (Critical CommitTx) st1))
        else Continue (logLine (Notice_end_migrating pbHistoryID) (tx_Commit t st1)))"
| "insertBuild e pbHistoryID t _ st = Panic st"

text \<open>Lines 839 to 881: the body of the loop over the candidates of a group.\<close>

definition migrateRecord :: "env \<Rightarrow> int \<Rightarrow> db \<Rightarrow> step" where
  "migrateRecord e pbHistoryID st =
     (if errScanID e pbHistoryID then Continue (logLine (Critical ScanID) st)
      else let st1 = logLine (Notice_migrating pbHistoryID) st in
        if errBegin e pbHistoryID then Continue (logLine (Critical BeginTx) st1)
        else let t = db_Begin; got = getPipelineBuild e st1 pbHistoryID in
          insertBuild e pbHistoryID t got (logged got st1))"

fun migrateRecords :: "env \<Rightarrow> int list \<Rightarrow> db \<Rightarrow> step" where
  "migrateRecords e [] st = Continue st"
| "migrateRecords e (pbHistoryID # rest) st =
     (case migrateRecord e pbHistoryID st of
        Continue st1 \<Rightarrow> migrateRecords e rest st1
      | Panic st1 \<Rightarrow> Panic st1)"

text \<open>Lines 816 to 883: the body of the loop over the groups.\<close>

definition migrateGroup :: "env \<Rightarrow> grp \<Rightarrow> db \<Rightarrow> step" where
  "migrateGroup e g st =
     (if errScanGroup e g then Continue (logLine (Critical ScanGroup) st)
      else if errCriteria e g then Continue (logLine (Critical SelectCriteria) st)
      else migrateRecords e (querySelectByCriteria st g) st)"

fun migrateGroups :: "env \<Rightarrow> grp list \<Rightarrow> db \<Rightarrow> step" where
  "migrateGroups e [] st = Continue st"
| "migrateGroups e (g # rest) st =
     (case migrateGroup e g st of
        Continue st1 \<Rightarrow> migrateGroups e rest st1
      | Panic st1 \<Rightarrow> Panic st1)"

text \<open>The run ends by returning an error or nil, or by a panic that leaves the function.\<close>

datatype run = Returns "failure option" | Panicked

definition MigratePipelineHistory :: "env \<Rightarrow> db \<Rightarrow> run \<times> db" where
  "MigratePipelineHistory e st =
     (if errDistinct e then (Returns (Some SelectDistinct), logLine (Critical SelectDistinct) st)
      else case migrateGroups e (queryDistinct st) st of
             Continue st1 \<Rightarrow> (Returns None, st1)
           | Panic st1 \<Rightarrow> (Panicked, st1))"

subsection \<open>A concrete codec and environment\<close>

text \<open>
  Modelled from the spec: the field names of the sdk types in JSON are not part of the sources
  at hand. The decoder follows \<open>encoding/json\<close> on a struct: an absent key or a null leaves the
  field at its zero value, a value of another shape than the field is an error, keys that the
  struct does not have are ignored. The names are those of section 8 of the specification and of
  the keys that \<open>getPipelineBuild\<close> reads from the dynamic tree.
\<close>

text \<open>
  A key of the object sets the field whose name it equals up to the case of its letters
  (\<open>encoding/json\<close> accepts a case-insensitive match); the last such key wins.
\<close>

definition toLower :: "char \<Rightarrow> char" where
  "toLower c = (if CHR ''A'' \<le> c \<and> c \<le> CHR ''Z'' then char_of (of_char c + (32::nat)) else c)"

definition fieldLookup :: "(string \<times> json) list \<Rightarrow> string \<Rightarrow> json option" where
  "fieldLookup kv k = map_of (rev (map (\<lambda>p. (map toLower (fst p), snd p)) kv)) (map toLower k)"

definition intField :: "(string \<times> json) list \<Rightarrow> string \<Rightarrow> int option" where
  "intField kv k =
     (case fieldLookup kv k of
        None \<Rightarrow> Some 0
      | Some JNull \<Rightarrow> Some 0
      | Some (JNumber r) \<Rightarrow> (if of_int \<lfloor>r\<rfloor> = r then Some \<lfloor>r\<rfloor> else None)
      | Some _ \<Rightarrow> None)"

definition stringField :: "(string \<times> json) list \<Rightarrow> string \<Rightarrow> string option" where
  "stringField kv k =
     (case fieldLookup kv k of
        None \<Rightarrow> Some []
      | Some JNull \<Rightarrow> Some []
      | Some (JString s) \<Rightarrow> Some s
      | Some _ \<Rightarrow> None)"

definition listField :: "(json \<Rightarrow> 'a option) \<Rightarrow> (string \<times> json) list \<Rightarrow> string \<Rightarrow> 'a list option" where
  "listField dec kv k =
     (case fieldLookup kv k of
        None \<Rightarrow> Some []
      | Some JNull \<Rightarrow> Some []
      | Some (JArray xs) \<Rightarrow> those (map dec xs)
      | Some _ \<Rightarrow> None)"

text \<open>The id of a nested object such as "pipeline": {"id": 7}.\<close>

definition refField :: "(string \<times> json) list \<Rightarrow> string \<Rightarrow> int option" where
  "refField kv k =
     (case fieldLookup kv k of
        None \<Rightarrow> Some 0
      | Some JNull \<Rightarrow> Some 0
      | Some (JObject inner) \<Rightarrow> intField inner ''id''
      | Some _ \<Rightarrow> None)"

fun jsonParameter :: "json \<Rightarrow> Parameter option" where
  "jsonParameter (JObject kv) =
     (case (stringField kv ''name'', stringField kv ''type'', stringField kv ''value'') of
        (Some n, Some t, Some v) \<Rightarrow>
          Some \<lparr>Parameter_Name = n, Parameter_Type = t, Parameter_Value = v\<rparr>
      | _ \<Rightarrow> None)"
| "jsonParameter JNull = Some \<lparr>Parameter_Name = [], Parameter_Type = [], Parameter_Value = []\<rparr>"
| "jsonParameter _ = None"

fun jsonParameters :: "json \<Rightarrow> Parameter list option" where
  "jsonParameters JNull = Some []"
| "jsonParameters (JArray xs) = those (map jsonParameter xs)"
| "jsonParameters _ = None"

definition zeroJob :: Job where
  "zeroJob = \<lparr>Job_ActionName = [], Job_Enabled = False, Job_PipelineActionID = 0\<rparr>"

definition zeroPipelineBuildJob :: PipelineBuildJob where
  "zeroPipelineBuildJob =
     \<lparr>PBJ_ID = 0, PBJ_Parameters = [], PBJ_PipelineBuildID = 0, PBJ_Model = [], PBJ_Status = [],
      PBJ_Job = zeroJob, PBJ_Start = 0, PBJ_Done = 0\<rparr>"

fun jsonPipelineBuildJob :: "json \<Rightarrow> PipelineBuildJob option" where
  "jsonPipelineBuildJob (JObject kv) =
     (case (intField kv ''id'', stringField kv ''status'') of
        (Some i, Some st) \<Rightarrow> Some (zeroPipelineBuildJob\<lparr>PBJ_ID := i, PBJ_Status := st\<rparr>)
      | _ \<Rightarrow> None)"
| "jsonPipelineBuildJob JNull = Some zeroPipelineBuildJob"
| "jsonPipelineBuildJob _ = None"

definition zeroStage :: Stage where
  "zeroStage =
     \<lparr>Stage_ID = 0, Stage_Name = [], Stage_Status = [], Stage_Jobs = [],
      Stage_PipelineBuildJobs = []\<rparr>"

fun jsonStage :: "json \<Rightarrow> Stage option" where
  "jsonStage (JObject kv) =
     (case (intField kv ''id'', stringField kv ''name'',
            listField jsonPipelineBuildJob kv ''builds'') of
        (Some i, Some n, Some js) \<Rightarrow>
          Some (zeroStage\<lparr>Stage_ID := i, Stage_Name := n, Stage_PipelineBuildJobs := js\<rparr>)
      | _ \<Rightarrow> None)"
| "jsonStage JNull = Some zeroStage"
| "jsonStage _ = None"

definition zeroPipelineBuild :: PipelineBuild where
  "zeroPipelineBuild =
     \<lparr>PB_ID = 0, PB_PipelineID = 0, PB_ApplicationID = 0, PB_EnvironmentID = 0,
      PB_BuildNumber = 0, PB_Version = 0, PB_Status = [], PB_Parameters = [], PB_Start = 0,
      PB_Done = 0,
      PB_Trigger = \<lparr>ManualTrigger = False, ScheduledTrigger = False, TriggeredBy = None,
                    VCSChangesBranch = [], VCSChangesHash = [], VCSChangesAuthor = []\<rparr>,
      PB_PreviousPipelineBuild = None, PB_Stages = []\<rparr>"

fun jsonPipelineBuild :: "json \<Rightarrow> PipelineBuild option" where
  "jsonPipelineBuild (JObject kv) =
     (case (intField kv ''id'', refField kv ''pipeline'', intField kv ''version'',
            stringField kv ''status'', listField jsonStage kv ''stages'') of
        (Some i, Some p, Some v, Some st, Some ss) \<Rightarrow>
          Some (zeroPipelineBuild\<lparr>PB_ID := i, PB_PipelineID := p, PB_Version := v,
                                  PB_Status := st, PB_Stages := ss\<rparr>)
      | _ \<Rightarrow> None)"
| "jsonPipelineBuild JNull = Some zeroPipelineBuild"
| "jsonPipelineBuild _ = None"

text \<open>The encoders write the parameters and, for each stage, its id and its derived status.\<close>

definition parameterJSON :: "Parameter \<Rightarrow> json" where
  "parameterJSON p =
     JObject [(''name'', JString (Parameter_Name p)), (''type'', JString (Parameter_Type p)),
              (''value'', JString (Parameter_Value p))]"

definition stageJSON :: "Stage \<Rightarrow> json" where
  "stageJSON s =
     JObject [(''id'', JNumber (of_int (Stage_ID s))), (''name'', JString (Stage_Name s)),
              (''status'', JString (Stage_Status s))]"

text \<open>An environment in which the clock reads 1000 plus the number of the reading and no database call fails.\<close>

definition quiet :: env where
  "quiet =
     \<lparr>unmarshalBuild = jsonPipelineBuild,
      unmarshalParameters = jsonParameters,
      marshalDynamic = Some,
      marshalParameters = (\<lambda>ps. Some (JArray (map parameterJSON ps))),
      marshalStages = (\<lambda>ss. Some (JArray (map stageJSON ss))),
      now = (\<lambda>pbHistoryID n. 1000 + n),
      errDistinct = False,
      errScanGroup = (\<lambda>g. False),
      errCriteria = (\<lambda>g. False),
      errScanID = (\<lambda>i. False),
      errBegin = (\<lambda>i. False),
      errSelectData = (\<lambda>i. False),
      errCount = (\<lambda>i. False),
      errInsert = (\<lambda>i. False),
      errCommit = (\<lambda>i. False)\<rparr>"

text \<open>A history row of the group (1, 1, 1, "master").\<close>

definition historyRow :: "int \<Rightarrow> int \<Rightarrow> json option \<Rightarrow> history_row" where
  "historyRow i v d =
     \<lparr>pipeline_build_id = i, application_id = 1, pipeline_id = 1, environment_id = 1,
      vcs_changes_branch = Some ''master'', version = v, data = d\<rparr>"

definition store :: "history_row list \<Rightarrow> db" where
  "store rows = \<lparr>pipeline_history_old = rows, pipeline_build = [], logs = []\<rparr>"

text \<open>The example of section 8 of the specification: record 42, one stage, one failed job.\<close>

definition job9 :: json where
  "job9 = JObject [(''id'', JNumber 9), (''status'', JString ''Fail''),
                   (''action_name'', JString ''build''), (''pipeline_action_id'', JNumber 5),
                   (''start'', JString ''t0''), (''done'', JString ''t1''),
                   (''args'', JArray [JObject [(''name'', JString ''X''), (''value'', JString ''1'')]])]"

definition payload42 :: json where
  "payload42 = JObject [(''id'', JNumber 42),
                        (''stages'', JArray [JObject [(''id'', JNumber 1), (''builds'', JArray [job9])]])]"

text \<open>What \<open>getPipelineBuild\<close> returns for record 42 in the quiet environment.\<close>

definition builtJob9 :: PipelineBuildJob where
  "builtJob9 =
     \<lparr>PBJ_ID = 9,
      PBJ_Parameters = [\<lparr>Parameter_Name = ''X'', Parameter_Type = [], Parameter_Value = ''1''\<rparr>],
      PBJ_PipelineBuildID = 42, PBJ_Model = [], PBJ_Status = ''Fail'',
      PBJ_Job = \<lparr>Job_ActionName = ''build'', Job_Enabled = True, Job_PipelineActionID = 5\<rparr>,
      PBJ_Start = 1000, PBJ_Done = 1001\<rparr>"

definition builtStage1 :: Stage where
  "builtStage1 =
     \<lparr>Stage_ID = 1, Stage_Name = [], Stage_Status = ''Fail'',
      Stage_Jobs = [\<lparr>Job_ActionName = ''build'', Job_Enabled = True, Job_PipelineActionID = 5\<rparr>],
      Stage_PipelineBuildJobs = [builtJob9]\<rparr>"

definition rebuilt42 :: rebuilt where
  "rebuilt42 =
     \<lparr>r_pb = zeroPipelineBuild\<lparr>PB_ID := 42, PB_Stages := [builtStage1]\<rparr>,
      r_args = JArray [],
      r_parentID = None,
      r_userID = None,
      r_stagesJSONByte =
        JArray [JObject [(''id'', JNumber 1), (''name'', JString []), (''status'', JString ''Fail'')]]\<rparr>"




text \<open>The same job with other texts in "start" and "done".\<close>

definition job9b :: json where
  "job9b = JObject [(''id'', JNumber 9), (''status'', JString ''Fail''),
                    (''action_name'', JString ''build''), (''pipeline_action_id'', JNumber 5),
                    (''start'', JString ''2016-11-03T10:00:00Z''),
                    (''done'', JString ''2016-11-03T10:05:00Z''),
                    (''args'', JArray [JObject [(''name'', JString ''X''), (''value'', JString ''1'')]])]"

text \<open>A record 43 with no stage, and a record whose text is not valid JSON.\<close>

definition payload43 :: json where
  "payload43 = JObject [(''id'', JNumber 43), (''stages'', JArray [])]"

definition rebuilt43 :: rebuilt where
  "rebuilt43 =
     \<lparr>r_pb = zeroPipelineBuild\<lparr>PB_ID := 43\<rparr>, r_args = JArray [], r_parentID = None,
      r_userID = None, r_stagesJSONByte = JArray []\<rparr>"




definition payloadNoIdentity :: json where
  "payloadNoIdentity = JObject [(''version'', JNumber 3), (''stages'', JNull)]"

text \<open>
  A payload whose stage object has the keys "id" and "ID": the typed stage takes the id 5 of
  the later key, the dynamic tree reads 1 under "id".
\<close>

definition payloadTwoIds :: json where
  "payloadTwoIds =
     JObject [(''id'', JNumber 42),
              (''stages'', JArray [JObject [(''id'', JNumber 1), (''ID'', JNumber 5),
                                            (''builds'', JArray [])]])]"

text \<open>Eleven history rows of the group (1, 1, 1, NULL), with the versions 1 to 11.\<close>

definition nullBranchRow :: "int \<Rightarrow> history_row" where
  "nullBranchRow i =
     \<lparr>pipeline_build_id = i, application_id = 1, pipeline_id = 1, environment_id = 1,
      vcs_changes_branch = None, version = i, data = Some payload43\<rparr>"

definition nullBranchStore :: db where
  "nullBranchStore = store (map nullBranchRow [1, 2, 3, 4, 5, 6, 7, 8, 9, 10, 11])"

section \<open>Properties\<close>

subsection \<open>Auxiliary facts\<close>

lemma obind_Return: "obind m f = Return y \<longleftrightarrow> (\<exists>x. m = Return x \<and> f x = Return y)"
  by (cases m) auto

lemma orErr_Return: "orErr f m = Return x \<longleftrightarrow> m = Some x"
  by (cases m) auto

lemma assert_Return: "assert m = Return x \<longleftrightarrow> m = Some x"
  by (cases m) auto

lemma getPipelineBuild_42:
  "getPipelineBuild quiet (store [historyRow 42 1 (Some payload42)]) 42 = Return rebuilt42"
  by code_simp

subsection \<open>The derived status of a stage\<close>

lemma finalStatus_eq:
  "finalStatus js =
     (if \<exists>j\<in>set js. PBJ_Status j = StatusFail then StatusFail else StatusSuccess)"
  by (induction js) auto

lemma computeStatus_all:
  "s \<in> set (computeStatus stages) \<Longrightarrow> Stage_Status s = finalStatus (Stage_PipelineBuildJobs s)"
  by (auto simp: computeStatus_def)

lemma getPipelineBuild_stages:
  assumes "getPipelineBuild e st i = Return r"
  shows "\<exists>stages. PB_Stages (r_pb r) = computeStatus stages"
  using assms
  by (auto simp: getPipelineBuild_def obind_Return orErr_Return Let_def split: if_splits)

text \<open>
  Claim C7. In every build that \<open>getPipelineBuild\<close> returns, the status of each stage is
  \<open>StatusFail\<close> exactly when one of the jobs of the stage has the status "Fail", and it is
  \<open>StatusSuccess\<close> otherwise.
\<close>

theorem stage_status_derivation:
  assumes "getPipelineBuild e st i = Return r"
      and "stage \<in> set (PB_Stages (r_pb r))"
  shows "(Stage_Status stage = StatusFail
            \<longleftrightarrow> (\<exists>job\<in>set (Stage_PipelineBuildJobs stage). PBJ_Status job = ''Fail''))
         \<and> (Stage_Status stage \<noteq> StatusFail \<longrightarrow> Stage_Status stage = StatusSuccess)"
proof -
  obtain stages where "PB_Stages (r_pb r) = computeStatus stages"
    using getPipelineBuild_stages [OF assms(1)] by blast
  with assms(2) have "Stage_Status stage = finalStatus (Stage_PipelineBuildJobs stage)"
    by (simp add: computeStatus_all)
  then show ?thesis
    by (simp add: finalStatus_eq StatusFail_def StatusSuccess_def)
qed

theorem stage_status_derivation_witness:
  "getPipelineBuild quiet (store [historyRow 42 1 (Some payload42)]) 42 = Return rebuilt42
   \<and> builtStage1 \<in> set (PB_Stages (r_pb rebuilt42))
   \<and> (Stage_Status builtStage1 = StatusFail
        \<longleftrightarrow> (\<exists>job\<in>set (Stage_PipelineBuildJobs builtStage1). PBJ_Status job = ''Fail''))
   \<and> Stage_Status builtStage1 = StatusFail"
proof -
  have mem: "builtStage1 \<in> set (PB_Stages (r_pb rebuilt42))"
    by (simp add: rebuilt42_def)
  have "Stage_Status builtStage1 = StatusFail"
    by (simp add: builtStage1_def StatusFail_def)
  then show ?thesis
    using getPipelineBuild_42 mem stage_status_derivation [OF getPipelineBuild_42 mem]
    by blast
qed

subsection \<open>Attaching the dynamic jobs to a stage\<close>

lemma locate_fold:
  assumes "n \<le> length ss"
  shows "length (fst (fold (locateStep sID) [0..<n] (ss, None))) = length ss
       \<and> (\<forall>k<length ss. fst (fold (locateStep sID) [0..<n] (ss, None)) ! k =
             (if k < n \<and> Stage_ID (ss ! k) = sID then resetStage (ss ! k) else ss ! k))
       \<and> (case snd (fold (locateStep sID) [0..<n] (ss, None)) of
            None \<Rightarrow> (\<forall>k<n. Stage_ID (ss ! k) \<noteq> sID)
          | Some i \<Rightarrow> i < n \<and> Stage_ID (ss ! i) = sID \<and> (\<forall>k<n. i < k \<longrightarrow> Stage_ID (ss ! k) \<noteq> sID))"
  using assms
proof (induction n)
  case 0
  then show ?case by simp
next
  case (Suc n)
  let ?sp = "fold (locateStep sID) [0..<n] (ss, None)"
  have n: "n < length ss" using Suc.prems by simp
  have IH: "length (fst ?sp) = length ss"
    "\<And>k. k < length ss \<Longrightarrow> fst ?sp ! k = (if k < n \<and> Stage_ID (ss ! k) = sID then resetStage (ss ! k) else ss ! k)"
    "(case snd ?sp of
            None \<Rightarrow> (\<forall>k<n. Stage_ID (ss ! k) \<noteq> sID)
          | Some i \<Rightarrow> i < n \<and> Stage_ID (ss ! i) = sID \<and> (\<forall>k<n. i < k \<longrightarrow> Stage_ID (ss ! k) \<noteq> sID))"
    using Suc.IH n by simp_all
  have cur: "fst ?sp ! n = ss ! n" using IH(2) [OF n] by simp
  have step: "fold (locateStep sID) [0..<Suc n] (ss, None) = locateStep sID n ?sp"
    by simp
  show ?case
  proof (cases "Stage_ID (ss ! n) = sID")
    case True
    then have eq: "locateStep sID n ?sp = ((fst ?sp)[n := resetStage (ss ! n)], Some n)"
      by (simp add: locateStep_def cur)
    show ?thesis
      unfolding step eq using IH(1,2) n True
      by (auto simp: nth_list_update less_Suc_eq)
  next
    case False
    then have eq: "locateStep sID n ?sp = ?sp"
      by (simp add: locateStep_def cur)
    show ?thesis
      unfolding step eq using IH n False
      by (auto simp: less_Suc_eq split: option.splits)
  qed
qed


lemma locateStage_None:
  "(\<exists>ss'. locateStage sID ss = (ss', None)) \<longleftrightarrow> (\<forall>s\<in>set ss. Stage_ID s \<noteq> sID)"
proof -
  note L = locate_fold [of "length ss" ss sID, simplified]
  show ?thesis
  proof (cases "snd (locateStage sID ss)")
    case None
    then have "\<forall>k<length ss. Stage_ID (ss ! k) \<noteq> sID"
      using L by (simp add: locateStage_def)
    moreover have "\<exists>ss'. locateStage sID ss = (ss', None)"
      using None by (cases "locateStage sID ss") simp
    ultimately show ?thesis by (auto simp: in_set_conv_nth)
  next
    case (Some i)
    then have "i < length ss \<and> Stage_ID (ss ! i) = sID"
      using L by (simp add: locateStage_def)
    then have "\<exists>s\<in>set ss. Stage_ID s = sID" by (metis nth_mem)
    moreover have "\<not> (\<exists>ss'. locateStage sID ss = (ss', None))"
      using Some by auto
    ultimately show ?thesis by blast
  qed
qed






subsection \<open>When the decoding of the payload fails\<close>

lemma obind_ReturnErr:
  "obind m f = ReturnErr x \<longleftrightarrow> m = ReturnErr x \<or> (\<exists>y. m = Return y \<and> f y = ReturnErr x)"
  by (cases m) auto

lemma orErr_ReturnErr: "orErr f m = ReturnErr x \<longleftrightarrow> m = None \<and> x = f"
  by (cases m) auto

lemma assert_not_ReturnErr: "assert m \<noteq> ReturnErr x"
  by (cases m) auto

lemma buildJob_ReturnErr:
  "buildJob e hid pbID n b = ReturnErr x \<Longrightarrow> x = MarshalParams \<or> x = UnmarshalParams"
  by (auto simp: buildJob_def obind_ReturnErr orErr_ReturnErr assert_not_ReturnErr)

lemma attachJobs_ReturnErr:
  "attachJobs e hid pbID i bs sn = ReturnErr x \<Longrightarrow> x = MarshalParams \<or> x = UnmarshalParams"
proof (induction bs arbitrary: sn)
  case Nil
  then show ?case by simp
next
  case (Cons b bs)
  then show ?case
    by (auto simp: obind_ReturnErr dest: buildJob_ReturnErr)
qed

lemma updateStage_ReturnErr:
  "updateStage e hid pbID s sn = ReturnErr x \<Longrightarrow> x = MarshalParams \<or> x = UnmarshalParams"
proof -
  assume a: "updateStage e hid pbID s sn = ReturnErr x"
  then obtain stageString sID where
    b: "(case locateStage (int64 sID) (fst sn) of
          (stages, None) \<Rightarrow> ReturnNil (Some StageToUpdate)
        | (stages, Some i) \<Rightarrow>
            obind (assert (asArray (lookup stageString ''builds''))) (\<lambda>builds.
              attachJobs e hid pbID i builds (stages, snd sn))) = ReturnErr x"
    by (auto simp: updateStage_def obind_ReturnErr assert_not_ReturnErr)
  obtain stages p where l: "locateStage (int64 sID) (fst sn) = (stages, p)"
    by (cases "locateStage (int64 sID) (fst sn)")
  from b l obtain i builds where "attachJobs e hid pbID i builds (stages, snd sn) = ReturnErr x"
    by (cases p) (auto simp: obind_ReturnErr assert_not_ReturnErr)
  then show ?thesis by (rule attachJobs_ReturnErr)
qed

lemma updateStages_ReturnErr:
  "updateStages e hid pbID ss sn = ReturnErr x \<Longrightarrow> x = MarshalParams \<or> x = UnmarshalParams"
proof (induction ss arbitrary: sn)
  case Nil
  then show ?case by simp
next
  case (Cons s ss)
  then show ?case
    by (auto simp: obind_ReturnErr dest: updateStage_ReturnErr)
qed

lemma rebuildStages_ReturnErr:
  "rebuildStages e hid pb v = ReturnErr x \<Longrightarrow> x = MarshalParams \<or> x = UnmarshalParams"
  by (auto simp: rebuildStages_def obind_ReturnErr assert_not_ReturnErr
           split: if_splits dest: updateStages_ReturnErr)

text \<open>
  Claim C8, as amended. \<open>getPipelineBuild\<close> returns the error of the first \<open>json.Unmarshal\<close>
  (line 900) exactly when the row has been read and its text is not valid JSON or is rejected
  by \<open>json.Unmarshal\<close> for the typed build. The function has no check of its own on the
  identity fields.
\<close>

theorem decode_error_iff:
  "getPipelineBuild e st i = ReturnErr UnmarshalBuild
     \<longleftrightarrow> (\<exists>text. selectData e st i = Some text
            \<and> (text = None \<or> (\<exists>j. text = Some j \<and> unmarshalBuild e j = None)))"
proof
  assume "getPipelineBuild e st i = ReturnErr UnmarshalBuild"
  then have "\<exists>text. selectData e st i = Some text \<and> decodeBuild e text = None"
    by (auto simp: getPipelineBuild_def obind_ReturnErr orErr_ReturnErr orErr_Return Let_def
             split: if_splits dest: rebuildStages_ReturnErr)
  then show "\<exists>text. selectData e st i = Some text
            \<and> (text = None \<or> (\<exists>j. text = Some j \<and> unmarshalBuild e j = None))"
    by (auto simp: decodeBuild_def split: option.splits)
next
  assume "\<exists>text. selectData e st i = Some text
            \<and> (text = None \<or> (\<exists>j. text = Some j \<and> unmarshalBuild e j = None))"
  then obtain payload where "selectData e st i = Some payload" "decodeBuild e payload = None"
    by (auto simp: decodeBuild_def)
  then show "getPipelineBuild e st i = ReturnErr UnmarshalBuild"
    by (simp add: getPipelineBuild_def)
qed

lemma selectData_41:
  "selectData quiet (store [historyRow 41 2 None, historyRow 42 1 (Some payload42)]) 41 = Some None"
  by code_simp

theorem decode_error_iff_witness:
  "selectData quiet (store [historyRow 41 2 None, historyRow 42 1 (Some payload42)]) 41 = Some None
   \<and> getPipelineBuild quiet (store [historyRow 41 2 None, historyRow 42 1 (Some payload42)]) 41
       = ReturnErr UnmarshalBuild"
  using selectData_41
    decode_error_iff [of quiet "store [historyRow 41 2 None, historyRow 42 1 (Some payload42)]" 41]
  by blast

text \<open>
  Claim C8 as stated fails: a valid payload with neither "id" nor "pipeline" is decoded, with
  both fields at zero, and \<open>getPipelineBuild\<close> does not return the decoding error.
\<close>

theorem decode_without_identity_counterexample:
  "lookup [(''version'', JNumber 3), (''stages'', JNull)] ''id'' = None
   \<and> lookup [(''version'', JNumber 3), (''stages'', JNull)] ''pipeline'' = None
   \<and> payloadNoIdentity = JObject [(''version'', JNumber 3), (''stages'', JNull)]
   \<and> decodeBuild quiet (Some payloadNoIdentity) = Some (zeroPipelineBuild\<lparr>PB_Version := 3\<rparr>)
   \<and> getPipelineBuild quiet (store [historyRow 42 1 (Some payloadNoIdentity)]) 42
        \<noteq> ReturnErr UnmarshalBuild"
  by code_simp

subsection \<open>A payload without the key "stages"\<close>



text \<open>A null "stages" gives a build with an empty stage list, when the two encodings succeed.\<close>

lemma null_stages_empty_build:
  assumes "selectData e st i = Some text"
      and "decodeBuild e text = Some pb"
      and "countBuild e st (PB_ID pb) = Some 0"
      and "decodeMap text = Some mapPB"
      and "lookup mapPB ''stages'' = Some JNull"
      and "marshalParameters e (PB_Parameters pb) = Some args"
      and "marshalStages e [] = Some stagesJSON"
  shows "\<exists>r. getPipelineBuild e st i = Return r \<and> PB_Stages (r_pb r) = []"
  using assms by (simp add: getPipelineBuild_def rebuildStages_def computeStatus_def)



subsection \<open>A dynamic stage that the skeleton does not have\<close>

lemma updateStages_append:
  "updateStages e hid pbID (xs @ ys) sn
     = obind (updateStages e hid pbID xs sn) (updateStages e hid pbID ys)"
proof (induction xs arbitrary: sn)
  case Nil
  then show ?case by simp
next
  case (Cons x xs)
  show ?case
    by (cases "updateStage e hid pbID x sn") (simp_all add: Cons.IH)
qed

lemma attachJob_ids: "map Stage_ID (attachJob i pbJob ss) = map Stage_ID ss"
  by (cases "i < length ss") (simp_all add: attachJob_def map_update list_update_same_conv list_update_beyond)

lemma attachJobs_ids:
  "attachJobs e hid pbID i bs sn = Return sn' \<Longrightarrow> map Stage_ID (fst sn') = map Stage_ID (fst sn)"
proof (induction bs arbitrary: sn)
  case Nil
  then show ?case by simp
next
  case (Cons b bs)
  from Cons.prems obtain pbJob where
    "attachJobs e hid pbID i bs (attachJob i pbJob (fst sn), Suc (Suc (snd sn))) = Return sn'"
    by (auto simp: obind_Return)
  from Cons.IH [OF this] show ?case by (simp add: attachJob_ids)
qed

lemma locateStage_ids: "map Stage_ID (fst (locateStage sID ss)) = map Stage_ID ss"
proof (rule nth_equalityI)
  note L = locate_fold [of "length ss" ss sID, simplified]
  show "length (map Stage_ID (fst (locateStage sID ss))) = length (map Stage_ID ss)"
    using L by (simp add: locateStage_def)
  fix k assume "k < length (map Stage_ID (fst (locateStage sID ss)))"
  then have k: "k < length ss" using L by (simp add: locateStage_def)
  then show "map Stage_ID (fst (locateStage sID ss)) ! k = map Stage_ID ss ! k"
    using L by (simp add: locateStage_def resetStage_def)
qed

lemma updateStage_ids:
  assumes "updateStage e hid pbID s sn = Return sn'"
  shows "map Stage_ID (fst sn') = map Stage_ID (fst sn)"
proof -
  from assms obtain stageString sID where
    b: "(case locateStage (int64 sID) (fst sn) of
          (stages, None) \<Rightarrow> ReturnNil (Some StageToUpdate)
        | (stages, Some i) \<Rightarrow>
            obind (assert (asArray (lookup stageString ''builds''))) (\<lambda>builds.
              attachJobs e hid pbID i builds (stages, snd sn))) = Return sn'"
    by (auto simp: updateStage_def obind_Return)
  obtain stages p where l: "locateStage (int64 sID) (fst sn) = (stages, p)"
    by (cases "locateStage (int64 sID) (fst sn)")
  from b l obtain i builds where "attachJobs e hid pbID i builds (stages, snd sn) = Return sn'"
    by (cases p) (auto simp: obind_Return)
  from attachJobs_ids [OF this] have "map Stage_ID (fst sn') = map Stage_ID stages" by simp
  also have "\<dots> = map Stage_ID (fst sn)"
    using locateStage_ids [of "int64 sID" "fst sn"] l by simp
  finally show ?thesis .
qed

lemma updateStages_ids:
  "updateStages e hid pbID ss sn = Return sn' \<Longrightarrow> map Stage_ID (fst sn') = map Stage_ID (fst sn)"
proof (induction ss arbitrary: sn)
  case Nil
  then show ?case by simp
next
  case (Cons s ss)
  from Cons.prems obtain sn1 where
    a: "updateStage e hid pbID s sn = Return sn1" and
    b: "updateStages e hid pbID ss sn1 = Return sn'"
    by (auto simp: obind_Return)
  show ?case using Cons.IH [OF b] updateStage_ids [OF a] by simp
qed

lemma updateStage_not_found:
  assumes "lookup stageString ''id'' = Some (JNumber sID)"
      and "\<forall>stage\<in>set (fst sn). Stage_ID stage \<noteq> int64 sID"
  shows "updateStage e hid pbID (JObject stageString) sn = ReturnNil (Some StageToUpdate)"
proof -
  from assms(2) obtain ss' where "locateStage (int64 sID) (fst sn) = (ss', None)"
    using locateStage_None [of "int64 sID" "fst sn"] by blast
  then show ?thesis
    using assms(1) by (simp add: updateStage_def)
qed

text \<open>
  Claim C6, as amended. When the entries before it have been attached and a dynamic stage entry
  carries a numeric id that no stage of the decoded skeleton has, \<open>getPipelineBuild\<close> logs
  "Cannot get stage to update" and returns with every result nil and a nil error.
\<close>

theorem stage_not_found_returns_nil:
  assumes "selectData e st i = Some text"
      and "decodeBuild e text = Some pb"
      and "countBuild e st (PB_ID pb) = Some 0"
      and "decodeMap text = Some mapPB"
      and "lookup mapPB ''stages'' = Some (JArray (pre @ JObject stageString # post))"
      and "updateStages e i (PB_ID pb) pre (PB_Stages pb, 0) = Return sn"
      and "lookup stageString ''id'' = Some (JNumber sID)"
      and "\<forall>stage\<in>set (PB_Stages pb). Stage_ID stage \<noteq> int64 sID"
  shows "getPipelineBuild e st i = ReturnNil (Some StageToUpdate)"
proof -
  have "set (map Stage_ID (fst sn)) = set (map Stage_ID (PB_Stages pb))"
    using updateStages_ids [OF assms(6)] by simp
  then have "\<forall>stage\<in>set (fst sn). Stage_ID stage \<noteq> int64 sID"
    using assms(8) by force
  then have "updateStage e i (PB_ID pb) (JObject stageString) sn = ReturnNil (Some StageToUpdate)"
    using assms(7) by (rule updateStage_not_found [rotated])
  then have "updateStages e i (PB_ID pb) (pre @ JObject stageString # post) (PB_Stages pb, 0)
               = ReturnNil (Some StageToUpdate)"
    by (simp add: updateStages_append assms(6))
  then have "rebuildStages e i pb (lookup mapPB ''stages'') = ReturnNil (Some StageToUpdate)"
    by (simp add: rebuildStages_def assms(5))
  then show ?thesis
    using assms(1-5) by (simp add: getPipelineBuild_def)
qed

lemma twoIds_hyps:
  "selectData quiet (store [historyRow 42 1 (Some payloadTwoIds)]) 42 = Some (Some payloadTwoIds)
   \<and> decodeBuild quiet (Some payloadTwoIds)
        = Some (zeroPipelineBuild\<lparr>PB_ID := 42, PB_Stages := [zeroStage\<lparr>Stage_ID := 5\<rparr>]\<rparr>)
   \<and> countBuild quiet (store [historyRow 42 1 (Some payloadTwoIds)])
        (PB_ID (zeroPipelineBuild\<lparr>PB_ID := 42, PB_Stages := [zeroStage\<lparr>Stage_ID := 5\<rparr>]\<rparr>)) = Some 0
   \<and> decodeMap (Some payloadTwoIds)
        = Some [(''id'', JNumber 42),
                (''stages'', JArray [JObject [(''id'', JNumber 1), (''ID'', JNumber 5), (''builds'', JArray [])]])]
   \<and> lookup [(''id'', JNumber 42),
              (''stages'', JArray [JObject [(''id'', JNumber 1), (''ID'', JNumber 5), (''builds'', JArray [])]])]
        ''stages''
        = Some (JArray ([] @ JObject [(''id'', JNumber 1), (''ID'', JNumber 5), (''builds'', JArray [])] # []))
   \<and> updateStages quiet 42
        (PB_ID (zeroPipelineBuild\<lparr>PB_ID := 42, PB_Stages := [zeroStage\<lparr>Stage_ID := 5\<rparr>]\<rparr>)) []
        (PB_Stages (zeroPipelineBuild\<lparr>PB_ID := 42, PB_Stages := [zeroStage\<lparr>Stage_ID := 5\<rparr>]\<rparr>), 0)
        = Return ([zeroStage\<lparr>Stage_ID := 5\<rparr>], 0)
   \<and> lookup [(''id'', JNumber 1), (''ID'', JNumber 5), (''builds'', JArray [])] ''id'' = Some (JNumber 1)
   \<and> list_all (\<lambda>stage. Stage_ID stage \<noteq> int64 1)
        (PB_Stages (zeroPipelineBuild\<lparr>PB_ID := 42, PB_Stages := [zeroStage\<lparr>Stage_ID := 5\<rparr>]\<rparr>))"
  by code_simp

theorem stage_not_found_returns_nil_witness:
  "selectData quiet (store [historyRow 42 1 (Some payloadTwoIds)]) 42 = Some (Some payloadTwoIds)
   \<and> decodeBuild quiet (Some payloadTwoIds)
        = Some (zeroPipelineBuild\<lparr>PB_ID := 42, PB_Stages := [zeroStage\<lparr>Stage_ID := 5\<rparr>]\<rparr>)
   \<and> lookup [(''id'', JNumber 1), (''ID'', JNumber 5), (''builds'', JArray [])] ''id'' = Some (JNumber 1)
   \<and> list_all (\<lambda>stage. Stage_ID stage \<noteq> int64 1)
        (PB_Stages (zeroPipelineBuild\<lparr>PB_ID := 42, PB_Stages := [zeroStage\<lparr>Stage_ID := 5\<rparr>]\<rparr>))
   \<and> getPipelineBuild quiet (store [historyRow 42 1 (Some payloadTwoIds)]) 42
        = ReturnNil (Some StageToUpdate)"
proof -
  note h = twoIds_hyps
  have "getPipelineBuild quiet (store [historyRow 42 1 (Some payloadTwoIds)]) 42
          = ReturnNil (Some StageToUpdate)"
    using h by (intro stage_not_found_returns_nil) (blast | simp add: list_all_iff)+
  with h show ?thesis by blast
qed

text \<open>
  Claim C6 as stated fails: the typed stage of this payload has the id 5, the dynamic entry
  reads the id 1, and \<open>getPipelineBuild\<close> returns nil results with a nil error.
\<close>

theorem stage_not_found_counterexample:
  "decodeBuild quiet (Some payloadTwoIds)
     = Some (zeroPipelineBuild\<lparr>PB_ID := 42, PB_Stages := [zeroStage\<lparr>Stage_ID := 5\<rparr>]\<rparr>)
   \<and> lookup [(''id'', JNumber 1), (''ID'', JNumber 5), (''builds'', JArray [])] ''id'' = Some (JNumber 1)
   \<and> getPipelineBuild quiet (store [historyRow 42 1 (Some payloadTwoIds)]) 42
       = ReturnNil (Some StageToUpdate)"
  by code_simp

subsection \<open>Runs of the driver\<close>

text \<open>
  Claim C1 fails on the code. Records 41 and 42 are the candidates of one group, in this order;
  the text of 41 is not valid JSON. \<open>getPipelineBuild\<close> returns the decoding error, the
  driver does not read it and dereferences the nil build: the run panics after the log line of
  the error, and record 42 is never tried.
\<close>

theorem undecodable_record_stops_the_run:
  "querySelectByCriteria (store [historyRow 41 2 None, historyRow 42 1 (Some payload42)])
     (1, 1, 1, Some ''master'') = [41, 42]
   \<and> getPipelineBuild quiet (store [historyRow 41 2 None, historyRow 42 1 (Some payload42)]) 41
       = ReturnErr UnmarshalBuild
   \<and> MigratePipelineHistory quiet (store [historyRow 41 2 None, historyRow 42 1 (Some payload42)])
       = (Panicked,
          \<lparr>pipeline_history_old = [historyRow 41 2 None, historyRow 42 1 (Some payload42)],
           pipeline_build = [],
           logs = [Notice_migrating 41, Critical UnmarshalBuild]\<rparr>)"
  by code_simp

text \<open>
  Claim C2 fails on the code. Record 42 is in the target table before the run;
  \<open>getPipelineBuild\<close> returns nil results for it, and the driver dereferences the nil
  build: the run panics, the row of 42 is as before, and record 43 is never tried.
\<close>

theorem migrated_record_stops_the_run:
  "getPipelineBuild quiet
     \<lparr>pipeline_history_old = [historyRow 42 2 (Some payload42), historyRow 43 1 (Some payload43)],
      pipeline_build = [insertArgs rebuilt42], logs = []\<rparr> 42 = ReturnNil None
   \<and> MigratePipelineHistory quiet
       \<lparr>pipeline_history_old = [historyRow 42 2 (Some payload42), historyRow 43 1 (Some payload43)],
        pipeline_build = [insertArgs rebuilt42], logs = []\<rparr>
       = (Panicked,
          \<lparr>pipeline_history_old = [historyRow 42 2 (Some payload42), historyRow 43 1 (Some payload43)],
           pipeline_build = [insertArgs rebuilt42],
           logs = [Notice_migrating 42]\<rparr>)"
  by code_simp

text \<open>
  Claim C3 fails on the code. The job built from an entry has the readings of the clock as
  \<open>Start\<close> and \<open>Done\<close>, whatever the texts under "start" and "done": two entries that
  differ only there give the same job.
\<close>

theorem timestamps_are_clock_readings:
  "asString (lookup [(''start'', JString ''t0''), (''done'', JString ''t1'')] ''start'') = Some ''t0''
   \<and> buildJob quiet 42 42 0 job9 = Return builtJob9
   \<and> buildJob quiet 42 42 0 job9b = Return builtJob9
   \<and> PBJ_Start builtJob9 = now quiet 42 0
   \<and> PBJ_Done builtJob9 = now quiet 42 1"
  by code_simp

text \<open>
  Claim C4 fails on the code. The insert is executed on the database handle; when the commit
  of the transaction of record 42 fails and the transaction is rolled back, the row of 42 is
  in the target table.
\<close>

theorem insert_survives_rollback:
  "MigratePipelineHistory (quiet\<lparr>errCommit := (\<lambda>i. i = 42)\<rparr>)
     (store [historyRow 42 1 (Some payload42)])
     = (Returns None,
        \<lparr>pipeline_history_old = [historyRow 42 1 (Some payload42)],
         pipeline_build = [insertArgs rebuilt42],
         logs = [Notice_migrating 42, Critical CommitTx]\<rparr>)"
  by code_simp

text \<open>
  Claim C9 fails on the code. Eleven history rows have the group (1, 1, 1, NULL); the group is
  listed, the comparison with a NULL branch selects none of its rows, and the run migrates
  nothing.
\<close>

theorem null_branch_group_has_no_candidates:
  "length (filter (\<lambda>r. group_of r = (1, 1, 1, None)) (pipeline_history_old nullBranchStore)) = 11
   \<and> queryDistinct nullBranchStore = [(1, 1, 1, None)]
   \<and> querySelectByCriteria nullBranchStore (1, 1, 1, None) = []
   \<and> MigratePipelineHistory quiet nullBranchStore = (Returns None, nullBranchStore)"
  by code_simp

text \<open>The timestamps of every job that is built are the two readings of the clock.\<close>

lemma buildJob_clock:
  "buildJob e hid pbID n b = Return job \<Longrightarrow> PBJ_Start job = now e hid n \<and> PBJ_Done job = now e hid (Suc n)"
  by (auto simp: buildJob_def obind_Return assert_Return orErr_Return)

text \<open>
  For a group whose branch is not NULL, the candidates are the first ten rows of the group in
  descending order of version; no row left out has a higher version than a candidate.
\<close>

lemma sorted_take_drop:
  assumes "sorted (map f xs)"
  shows "\<forall>x\<in>set (take n xs). \<forall>y\<in>set (drop n xs). f x \<le> f y"
proof -
  have "sorted (map f (take n xs) @ map f (drop n xs))"
    using assms by (simp flip: map_append)
  then show ?thesis by (auto simp: sorted_append)
qed

lemma sorted_neg_rev:
  fixes f :: "'a \<Rightarrow> int"
  shows "sorted (map (\<lambda>r. - f r) xs) \<Longrightarrow> sorted (rev (map f xs))"
  by (induction xs) (auto simp: sorted_append)

lemma candidates_highest_versions:
  assumes "rows = filter (matches g) (pipeline_history_old st)"
      and "ordered = sort_key (\<lambda>r. - version r) rows"
      and "10 < length rows"
  shows "querySelectByCriteria st g = map pipeline_build_id (take 10 ordered)"
    and "length (querySelectByCriteria st g) = 10"
    and "set ordered = set rows \<and> length ordered = length rows"
    and "sorted (rev (map version (take 10 ordered)))"
    and "\<forall>x\<in>set (take 10 ordered). \<forall>y\<in>set (drop 10 ordered). version y \<le> version x"
proof -
  show "querySelectByCriteria st g = map pipeline_build_id (take 10 ordered)"
    by (simp add: querySelectByCriteria_def assms)
  show "length (querySelectByCriteria st g) = 10"
    using assms(3) by (simp add: querySelectByCriteria_def assms(1))
  show "set ordered = set rows \<and> length ordered = length rows"
    by (simp add: assms(2))
  have s: "sorted (map (\<lambda>r. - version r) ordered)"
    by (simp add: assms(2))
  from sorted_take_drop [OF s, of 10]
  show "\<forall>x\<in>set (take 10 ordered). \<forall>y\<in>set (drop 10 ordered). version y \<le> version x"
    by auto
  have "sorted (map (\<lambda>r. - version r) (take 10 ordered))"
    using s by (simp add: take_map [symmetric] sorted_wrt_take del: take_map)
  then show "sorted (rev (map version (take 10 ordered)))"
    by (rule sorted_neg_rev)
qed

text \<open>Whenever \<open>getPipelineBuild\<close> is reached and returns no build, the iteration panics.\<close>

lemma no_build_panics:
  assumes "\<not> errScanID e pbHistoryID" and "\<not> errBegin e pbHistoryID"
      and "\<And>r. getPipelineBuild e (logLine (Notice_migrating pbHistoryID) st) pbHistoryID \<noteq> Return r"
  shows "\<exists>st1. migrateRecord e pbHistoryID st = Panic st1"
proof (cases "getPipelineBuild e (logLine (Notice_migrating pbHistoryID) st) pbHistoryID")
  case (Return r)
  with assms(3) [of r] show ?thesis by blast
next
  case (ReturnNil f)
  with assms(1,2) show ?thesis by (simp add: migrateRecord_def Let_def)
next
  case (ReturnErr f)
  with assms(1,2) show ?thesis by (simp add: migrateRecord_def Let_def)
next
  case Panics
  with assms(1,2) show ?thesis by (simp add: migrateRecord_def Let_def)
qed

text \<open>No iteration removes or changes a row of the target table, and the history table is only read.\<close>

lemma migrateRecord_keeps_rows:
  "\<exists>new. pipeline_build (stateOf (migrateRecord e pbHistoryID st)) = pipeline_build st @ new
         \<and> pipeline_history_old (stateOf (migrateRecord e pbHistoryID st)) = pipeline_history_old st"
proof (cases "getPipelineBuild e (logLine (Notice_migrating pbHistoryID) st) pbHistoryID")
  case (Return r)
  then show ?thesis
    by (simp add: migrateRecord_def Let_def logLine_def db_Exec_def db_Begin_def tx_Commit_def
                  tx_Rollback_def)
next
  case (ReturnNil f)
  then show ?thesis
    by (cases f) (simp_all add: migrateRecord_def Let_def logLine_def)
next
  case (ReturnErr f)
  then show ?thesis
    by (simp add: migrateRecord_def Let_def logLine_def)
next
  case Panics
  then show ?thesis
    by (simp add: migrateRecord_def Let_def logLine_def)
qed

end
